theory Spec2Isabelle
  imports Complex_Main "HOL-Library.Word" "HOL-Library.Log_Nat"
begin

section \<open>Data model of \<^verbatim>\<open>geometry/type.hpp\<close>\<close>

text \<open>
  \<^verbatim>\<open>enum point_property : uint8_t { invalid = 0, active = 1, inactive = 2 };\<close>
  The enumeration has the fixed underlying type \<^verbatim>\<open>uint8_t\<close>: a value of the type is a
  byte, any byte, and the three enumerators are three of its values.
\<close>

type_synonym point_property = "8 word"

definition invalid :: point_property where
  "invalid = 0"

definition active :: point_property where
  "active = 1"


text \<open>
  The structs \<^verbatim>\<open>float3\<close> (CUDA), \<^verbatim>\<open>color3\<close> and \<^verbatim>\<open>point_t\<close>. The scalar types of the
  coordinates and of the colour are parameters: in \<^verbatim>\<open>type.hpp\<close> both are \<^verbatim>\<open>float\<close>, and
  its arithmetic is modelled on IEEE values (type \<open>fp\<close> below); the geometric operations
  of the point cloud are modelled on exact rational coordinates.
\<close>

record 'a float3 =
  x :: 'a
  y :: 'a
  z :: 'a

record 'a color3 =
  r :: 'a
  g :: 'a
  b :: 'a

record ('a, 'c) point_t =
  coordinates :: "'a float3"
  color :: "'c color3"
  property :: point_property

subsection \<open>Printing a point\<close>

text \<open>
  \<^verbatim>\<open>operator<<(std::ostream &os, const point_t &point)\<close>. The stream is the text written
  so far; how the stream formats a \<^verbatim>\<open>float\<close> depends on its flags and is the parameter
  \<open>fmt\<close>.
\<close>

definition newline :: string where
  "newline = [CHR 0x0A]"

definition operator_shl :: "('a \<Rightarrow> string) \<Rightarrow> string \<Rightarrow> ('a, 'a) point_t \<Rightarrow> string" where
  "operator_shl fmt os point =
     os @ ''Coordinates: x = '' @ fmt (x (coordinates point)) @ newline
        @ ''             y = '' @ fmt (y (coordinates point)) @ newline
        @ ''             z = '' @ fmt (z (coordinates point)) @ newline
        @ ''R: '' @ fmt (r (color point)) @ '' G: '' @ fmt (g (color point))
        @ '' B: '' @ fmt (b (color point)) @ newline
        @ ''Property: '' @ (if property point = active then ''Active'' else ''Inactive'')
        @ newline"

section \<open>IEEE 754 binary floating point\<close>

text \<open>
  A \<^verbatim>\<open>float\<close> or \<^verbatim>\<open>double\<close> is a finite value (kept as the rational it denotes), an
  infinity (\<open>Infinite True\<close> is the negative one) or a NaN. The two zeros are not
  distinguished, and neither are the NaN payloads. A format is its precision in bits
  and its exponent range.
\<close>

datatype fp = Finite rat | Infinite bool | NaN

record fp_format =
  precision :: nat
  emin :: int
  emax :: int

definition binary32 :: fp_format where
  "binary32 = \<lparr>precision = 24, emin = - 126, emax = 127\<rparr>"

definition binary64 :: fp_format where
  "binary64 = \<lparr>precision = 53, emin = - 1022, emax = 1023\<rparr>"

text \<open>Rounding to the nearest integer, ties to the even one.\<close>

definition round_half_even :: "rat \<Rightarrow> int" where
  "round_half_even t =
     (let n = \<lfloor>t\<rfloor>; d = t - of_int n
      in if d < 1 / 2 then n
         else if 1 / 2 < d then n + 1
         else if even n then n else n + 1)"

text \<open>The binary exponent \<open>e\<close> of a non-zero value: \<open>2 powi e \<le> \<bar>v\<bar> < 2 powi (e + 1)\<close>.\<close>

definition ilog2 :: "rat \<Rightarrow> int" where
  "ilog2 v = (if 1 \<le> \<bar>v\<bar> then bitlen \<lfloor>\<bar>v\<bar>\<rfloor> - 1 else - bitlen (\<lceil>1 / \<bar>v\<bar>\<rceil> - 1))"

text \<open>
  Rounding a real value into a format, to nearest, ties to even (the default rounding
  mode): the value is rounded to a multiple of the unit in the last place of its binade
  (of the smallest binade for subnormal values), and overflows to an infinity when the
  exponent of the rounded value exceeds \<open>emax\<close>, that is when its magnitude reaches
  \<open>2 powi (emax + 1)\<close>.
\<close>

definition fround :: "fp_format \<Rightarrow> rat \<Rightarrow> fp" where
  "fround f v =
     (if v = 0 then Finite 0
      else
        let e = max (ilog2 v) (emin f);
            q = 2 powi (e - int (precision f) + 1);
            w = of_int (round_half_even (v / q)) * q
        in if w = 0 \<or> ilog2 w \<le> emax f then Finite w else Infinite (v < 0))"

fun fp_add :: "fp_format \<Rightarrow> fp \<Rightarrow> fp \<Rightarrow> fp" where
  "fp_add f NaN _ = NaN"
| "fp_add f _ NaN = NaN"
| "fp_add f (Finite u) (Finite v) = fround f (u + v)"
| "fp_add f (Finite u) (Infinite t) = Infinite t"
| "fp_add f (Infinite s) (Finite v) = Infinite s"
| "fp_add f (Infinite s) (Infinite t) = (if s = t then Infinite s else NaN)"

fun fp_mul :: "fp_format \<Rightarrow> fp \<Rightarrow> fp \<Rightarrow> fp" where
  "fp_mul f NaN _ = NaN"
| "fp_mul f _ NaN = NaN"
| "fp_mul f (Finite u) (Finite v) = fround f (u * v)"
| "fp_mul f (Finite u) (Infinite t) = (if u = 0 then NaN else Infinite ((u < 0) \<noteq> t))"
| "fp_mul f (Infinite s) (Finite v) = (if v = 0 then NaN else Infinite (s \<noteq> (v < 0)))"
| "fp_mul f (Infinite s) (Infinite t) = Infinite (s \<noteq> t)"

text \<open>Division; a zero divisor counts as the positive zero.\<close>

fun fp_div :: "fp_format \<Rightarrow> fp \<Rightarrow> fp \<Rightarrow> fp" where
  "fp_div f NaN _ = NaN"
| "fp_div f _ NaN = NaN"
| "fp_div f (Finite u) (Finite v) =
     (if v = 0 then (if u = 0 then NaN else Infinite (u < 0)) else fround f (u / v))"
| "fp_div f (Finite u) (Infinite t) = Finite 0"
| "fp_div f (Infinite s) (Finite v) = Infinite (s \<noteq> (v < 0))"
| "fp_div f (Infinite s) (Infinite t) = NaN"

text \<open>
  Conversions. \<^verbatim>\<open>static_cast<double>(f)\<close> is exact: every \<^verbatim>\<open>float\<close> is a \<^verbatim>\<open>double\<close>.
  A \<^verbatim>\<open>double\<close> returned as \<^verbatim>\<open>float\<close> is rounded, and so is an integer cast to
  \<^verbatim>\<open>float\<close>. A decimal \<^verbatim>\<open>double\<close> literal denotes the nearest \<^verbatim>\<open>double\<close>.
\<close>

fun double_of_float :: "fp \<Rightarrow> fp" where
  "double_of_float a = a"

fun float_of_double :: "fp \<Rightarrow> fp" where
  "float_of_double (Finite v) = fround binary32 v"
| "float_of_double a = a"

definition float_of_int :: "int \<Rightarrow> fp" where
  "float_of_int n = fround binary32 (of_int n)"

definition double_literal :: "rat \<Rightarrow> fp" where
  "double_literal v = fround binary64 v"

section \<open>The operations of \<^verbatim>\<open>color3\<close>\<close>

text \<open>\<^verbatim>\<open>operator float3() const { return make_float3(r, g, b); }\<close>\<close>

definition color3_to_float3 :: "'a color3 \<Rightarrow> 'a float3" where
  "color3_to_float3 c = \<lparr>x = r c, y = g c, z = b c\<rparr>"

text \<open>\<^verbatim>\<open>operator+\<close>: \<^verbatim>\<open>color3{r + other.r, g + other.g, b + other.b}\<close>, in \<^verbatim>\<open>float\<close>.\<close>

definition color3_plus :: "fp color3 \<Rightarrow> fp color3 \<Rightarrow> fp color3" where
  "color3_plus c other =
     \<lparr>r = fp_add binary32 (r c) (r other),
      g = fp_add binary32 (g c) (g other),
      b = fp_add binary32 (b c) (b other)\<rparr>"

text \<open>\<^verbatim>\<open>operator+=\<close> updates the three fields of \<^verbatim>\<open>*this\<close> in turn and returns it.\<close>

definition color3_plus_assign :: "fp color3 \<Rightarrow> fp color3 \<Rightarrow> fp color3" where
  "color3_plus_assign c other =
     (let c1 = c\<lparr>r := fp_add binary32 (r c) (r other)\<rparr>;
          c2 = c1\<lparr>g := fp_add binary32 (g c1) (g other)\<rparr>
      in c2\<lparr>b := fp_add binary32 (b c2) (b other)\<rparr>)"

text \<open>
  \<^verbatim>\<open>to_intensity\<close>: the three products and the two sums (left to right) are \<^verbatim>\<open>double\<close>
  operations, each rounded (no product is fused with a sum); the \<^verbatim>\<open>double\<close> result is
  returned as \<^verbatim>\<open>float\<close>.
\<close>

definition to_intensity :: "fp color3 \<Rightarrow> fp" where
  "to_intensity c =
     float_of_double
       (fp_add binary64
          (fp_add binary64
             (fp_mul binary64 (double_literal (2126 / 10000)) (double_of_float (r c)))
             (fp_mul binary64 (double_literal (7152 / 10000)) (double_of_float (g c))))
          (fp_mul binary64 (double_literal (722 / 10000)) (double_of_float (b c))))"

text \<open>\<^verbatim>\<open>get_average\<close>: \<^verbatim>\<open>(double(r) + double(g) + double(b)) / 3.0\<close>, returned as \<^verbatim>\<open>float\<close>.\<close>

definition get_average :: "fp color3 \<Rightarrow> fp" where
  "get_average c =
     float_of_double
       (fp_div binary64
          (fp_add binary64
             (fp_add binary64 (double_of_float (r c)) (double_of_float (g c)))
             (double_of_float (b c)))
          (double_literal 3))"

text \<open>
  \<^verbatim>\<open>template <typename T> color3 operator/(T n) const\<close>, for an integer type \<open>T\<close>;
  \<open>n\<close> is the value of the argument:
  \<^verbatim>\<open>auto _n = 1.0f / (float)n; return color3{r * _n, g * _n, b * _n};\<close>
\<close>

definition color3_divide :: "fp color3 \<Rightarrow> int \<Rightarrow> fp color3" where
  "color3_divide c n =
     (let n' = fp_div binary32 (Finite 1) (float_of_int n)
      in \<lparr>r = fp_mul binary32 (r c) n',
          g = fp_mul binary32 (g c) n',
          b = fp_mul binary32 (b c) n'\<rparr>)"

text \<open>
  For comparison only, the quotient that \<^verbatim>\<open>operator/\<close> does not compute: each channel
  divided by \<^verbatim>\<open>(float)n\<close> directly, with one rounding.
\<close>

definition color3_direct_quotient :: "fp color3 \<Rightarrow> int \<Rightarrow> fp color3" where
  "color3_direct_quotient c n =
     \<lparr>r = fp_div binary32 (r c) (float_of_int n),
      g = fp_div binary32 (g c) (float_of_int n),
      b = fp_div binary32 (b c) (float_of_int n)\<rparr>"

section \<open>The command-line programs\<close>


subsection \<open>\<^verbatim>\<open>apps/app.cpp\<close>\<close>




subsection \<open>\<^verbatim>\<open>apps/test_color_icp.cpp\<close>\<close>





section \<open>The point cloud operations\<close>

text \<open>
  The point cloud engine (\<^verbatim>\<open>geometry/point_cloud.hpp\<close>, \<^verbatim>\<open>geometry/cuda_nn_search.cuh\<close>
  and the CUDA sources behind them) is not among the sources; only its callers in
  \<^verbatim>\<open>apps/\<close> are. Every definition of this section is modelled from the specification,
  over exact rational coordinates: the rounding of the single-precision arithmetic on
  positions is left out of this part. The searches carry the colours along and leave
  their type open; the downsampling computes on them with the operators of \<^verbatim>\<open>color3\<close>, on
  IEEE values. A cloud is the array of its points, and the id of a point is its position
  in the array. All points of a cloud take part in the operations: whether a property
  excludes a point from the queries is an open question of the specification (section 9)
  and is not modelled.
\<close>

text \<open>Modelled from the spec: the points of a \<^verbatim>\<open>gca::point_cloud\<close>, as \<^verbatim>\<open>download()\<close> gives them.\<close>

type_synonym 'c cloud = "(rat, 'c) point_t list"

text \<open>Modelled from the spec: the error kinds of the engine (section 7).\<close>

datatype error =
    InvalidArgument | OutOfMemory | DeviceError | MissingNormals
  | NoCorrespondences | Singular | IoError

subsection \<open>Tables keyed by cell\<close>

text \<open>
  Modelled from the spec: the quantized cell of the grid hash and of the voxel grid, as
  its triple of integer coordinates (the packing into a 64-bit key is not modelled).
\<close>

type_synonym cell = "int \<times> int \<times> int"

text \<open>
  Modelled from the spec: a table keyed by cell (the cell table of the grid hash, the
  voxel accumulator of the downsampling), as an association list in the order in which
  the cells were first met. \<open>upsert\<close> changes the entry of a key that is present and
  appends an entry for a new key.
\<close>

fun upsert :: "'k \<Rightarrow> ('v \<Rightarrow> 'v) \<Rightarrow> 'v \<Rightarrow> ('k \<times> 'v) list \<Rightarrow> ('k \<times> 'v) list" where
  "upsert k f v0 [] = [(k, v0)]"
| "upsert k f v0 ((k', v) # kvs) =
     (if k = k' then (k', f v) # kvs else (k', v) # upsert k f v0 kvs)"


text \<open>
  Modelled from the spec: the cell of a position in the grid hash,
  \<open>(ix, iy, iz) = floor ((p - min) / h)\<close> (section 3).
\<close>

definition cell_of :: "rat float3 \<Rightarrow> rat \<Rightarrow> rat float3 \<Rightarrow> cell" where
  "cell_of org h p =
     (\<lfloor>(x p - x org) / h\<rfloor>, \<lfloor>(y p - y org) / h\<rfloor>, \<lfloor>(z p - z org) / h\<rfloor>)"

text \<open>
  Modelled from the spec: the least coordinate of the cloud on one axis, for its bounding
  box. An empty cloud has no bounding box; its grid has no cell and any origin will do.
\<close>

definition axis_min :: "rat list \<Rightarrow> rat" where
  "axis_min vs = (case vs of [] \<Rightarrow> 0 | v # ws \<Rightarrow> fold min ws v)"

text \<open>
  Modelled from the spec: the lower corner \<open>min_xyz\<close> of the bounding box of the cloud, the
  origin of the grid.
\<close>

definition bbox_min :: "'c cloud \<Rightarrow> rat float3" where
  "bbox_min pc =
     \<lparr>x = axis_min (map (\<lambda>p. x (coordinates p)) pc),
      y = axis_min (map (\<lambda>p. y (coordinates p)) pc),
      z = axis_min (map (\<lambda>p. z (coordinates p)) pc)\<rparr>"

text \<open>Modelled from the spec: the squared distance by which the queries filter.\<close>

definition dist2 :: "rat float3 \<Rightarrow> rat float3 \<Rightarrow> rat" where
  "dist2 p q = (x p - x q) * (x p - x q) + (y p - y q) * (y p - y q) + (z p - z q) * (z p - z q)"

subsection \<open>Spatial index\<close>

text \<open>
  Modelled from the spec: the grid hash (sections 3 and 4.2). It keeps the grid origin,
  the cell size, the points, and for every occupied cell the ids of the points hashed
  into it, in ascending order (the spec's contiguous range of the ids sorted by cell key).
\<close>

record 'c grid_index =
  origin :: "rat float3"
  cell_size :: rat
  points :: "'c cloud"
  cells :: "(cell \<times> nat list) list"

text \<open>Modelled from the spec: hashing each point of the cloud into its cell.\<close>

definition hash_points :: "rat float3 \<Rightarrow> rat \<Rightarrow> 'c cloud \<Rightarrow> (cell \<times> nat list) list" where
  "hash_points org h pc =
     fold (\<lambda>i tbl. upsert (cell_of org h (coordinates (pc ! i))) (\<lambda>ids. ids @ [i]) [i] tbl)
       [0..<length pc] []"

text \<open>
  Modelled from the spec: \<open>build(points, cell_size h)\<close>, where \<open>h > 0\<close>; another cell size is
  an invalid argument.
\<close>

definition build :: "'c cloud \<Rightarrow> rat \<Rightarrow> error + 'c grid_index" where
  "build pc h =
     (if h \<le> 0 then Inl InvalidArgument
      else Inr \<lparr>origin = bbox_min pc, cell_size = h, points = pc,
                cells = hash_points (bbox_min pc) h pc\<rparr>)"

text \<open>Modelled from the spec: the ids stored for a cell; none for a cell that is not occupied.\<close>

definition cell_points :: "'c grid_index \<Rightarrow> cell \<Rightarrow> nat list" where
  "cell_points idx c = (case map_of (cells idx) c of None \<Rightarrow> [] | Some ids \<Rightarrow> ids)"

text \<open>
  Modelled from the spec: the 27 cells of the 3 x 3 x 3 neighbourhood of a cell, which
  the queries scan.
\<close>

definition neighbor_cells :: "cell \<Rightarrow> cell list" where
  "neighbor_cells c =
     (case c of (ix, iy, iz) \<Rightarrow>
        concat (map (\<lambda>dx. concat (map (\<lambda>dy. map (\<lambda>dz. (ix + dx, iy + dy, iz + dz))
          [- 1, 0, 1]) [- 1, 0, 1])) [- 1, 0, 1]))"

text \<open>
  Modelled from the spec: \<open>radius_search(q, r)\<close>, which gives the pairs (point id, squared
  distance). A negative radius and a radius above the cell size are \<open>InvalidArgument\<close>
  (sections 4.2 and 7); otherwise the query scans the 27 neighbour cells of the cell of
  the query point and filters by squared distance.
\<close>

definition radius_search :: "'c grid_index \<Rightarrow> rat float3 \<Rightarrow> rat \<Rightarrow> error + (nat \<times> rat) list" where
  "radius_search idx q rad =
     (if rad < 0 \<or> cell_size idx < rad then Inl InvalidArgument
      else Inr (concat (map
        (\<lambda>c. map (\<lambda>i. (i, dist2 (coordinates (points idx ! i)) q))
               (filter (\<lambda>i. dist2 (coordinates (points idx ! i)) q \<le> rad * rad)
                  (cell_points idx c)))
        (neighbor_cells (cell_of (origin idx) (cell_size idx) q)))))"


subsection \<open>Radius outlier removal\<close>




subsection \<open>Voxel grid downsampling\<close>

text \<open>
  Modelled from the spec: the voxel accumulator (section 3), the running sum of the
  positions and of the colours of the points of one voxel and their number (taken to
  stay below the range of its 32-bit counter). The positions are summed exactly; the
  colour sum is a \<^verbatim>\<open>color3\<close>, on which the operators of \<^verbatim>\<open>type.hpp\<close> work.
\<close>

record voxel_acc =
  sum_xyz :: "rat float3"
  sum_rgb :: "fp color3"
  n_points :: nat

text \<open>Modelled from the spec: the accumulator of a voxel before any point is added.\<close>

definition empty_acc :: voxel_acc where
  "empty_acc =
     \<lparr>sum_xyz = \<lparr>x = 0, y = 0, z = 0\<rparr>,
      sum_rgb = \<lparr>r = Finite 0, g = Finite 0, b = Finite 0\<rparr>, n_points = 0\<rparr>"

text \<open>
  Modelled from the spec: a point contributes to the accumulator of its voxel; its colour
  is added to the colour sum with \<^verbatim>\<open>color3::operator+=\<close>.
\<close>

definition add_point :: "(rat, fp) point_t \<Rightarrow> voxel_acc \<Rightarrow> voxel_acc" where
  "add_point p a =
     \<lparr>sum_xyz = \<lparr>x = x (sum_xyz a) + x (coordinates p),
                 y = y (sum_xyz a) + y (coordinates p),
                 z = z (sum_xyz a) + z (coordinates p)\<rparr>,
      sum_rgb = color3_plus_assign (sum_rgb a) (color p),
      n_points = n_points a + 1\<rparr>"

text \<open>
  Modelled from the spec: the output point of a voxel, the sums divided by the number of
  contributors, with property active; the colour sum is divided with
  \<^verbatim>\<open>color3::operator/\<close>.
\<close>

definition voxel_point :: "voxel_acc \<Rightarrow> (rat, fp) point_t" where
  "voxel_point a =
     \<lparr>coordinates = \<lparr>x = x (sum_xyz a) / of_nat (n_points a),
                     y = y (sum_xyz a) / of_nat (n_points a),
                     z = z (sum_xyz a) / of_nat (n_points a)\<rparr>,
      color = color3_divide (sum_rgb a) (int (n_points a)),
      property = active\<rparr>"

text \<open>
  Modelled from the spec: the voxel that contains a point of the cloud, on the grid of
  leaf size \<open>leaf\<close> whose origin is the lower corner of the cloud's bounding box. The
  specification names no leaf size as invalid; with the leaf size 0 every quotient is 0
  here and the grid is a single voxel.
\<close>

definition voxel_key :: "rat \<Rightarrow> 'c cloud \<Rightarrow> (rat, 'c) point_t \<Rightarrow> cell" where
  "voxel_key leaf pc p = cell_of (bbox_min pc) leaf (coordinates p)"

text \<open>
  Modelled from the spec: \<^verbatim>\<open>point_cloud::voxel_grid_down_sample(leaf)\<close> (section 4.3).
  Every point is added to the accumulator of its voxel; the output has the point of each
  accumulator, in the order in which the voxels were first met. The result is the pair
  of the receiver after the call and the new cloud.
\<close>

definition voxel_grid_down_sample :: "rat \<Rightarrow> fp cloud \<Rightarrow> fp cloud \<times> fp cloud" where
  "voxel_grid_down_sample leaf pc =
     (pc, map (\<lambda>(k, a). voxel_point a)
        (fold (\<lambda>p tbl. upsert (voxel_key leaf pc p) (add_point p) (add_point p empty_acc) tbl)
           pc []))"







subsection \<open>Normal estimation\<close>
















subsection \<open>Scenarios\<close>

text \<open>
  Modelled from the spec: the input of scenario S1 (section 8), ten collinear points
  along the x axis at spacing 0.01; the scenario fixes neither colour nor property.
\<close>

definition scenario_S1 :: "fp cloud" where
  "scenario_S1 =
     map (\<lambda>i. \<lparr>coordinates = \<lparr>x = of_nat i / 100, y = 0, z = 0\<rparr>,
               color = \<lparr>r = Finite 0, g = Finite 0, b = Finite 0\<rparr>, property = active\<rparr>)
       [0..<10]"




section \<open>Properties of the data model\<close>



text \<open>
  C8. For every point whose property is not active (invalid included), the stream output
  operator prints the property line as "Inactive": the full text of the record, written
  after the stream's previous content, ends in that line whatever else the property is.
\<close>

theorem operator_shl_not_active:
  assumes "property point \<noteq> active"
  shows "operator_shl fmt os point =
     os @ ''Coordinates: x = '' @ fmt (x (coordinates point)) @ newline
        @ ''             y = '' @ fmt (y (coordinates point)) @ newline
        @ ''             z = '' @ fmt (z (coordinates point)) @ newline
        @ ''R: '' @ fmt (r (color point)) @ '' G: '' @ fmt (g (color point))
        @ '' B: '' @ fmt (b (color point)) @ newline
        @ ''Property: Inactive'' @ newline"
  using assms by (simp add: operator_shl_def)

theorem operator_shl_not_active_witness:
  "property \<lparr>coordinates = \<lparr>x = (1::int), y = 2, z = 3\<rparr>, color = \<lparr>r = 0, g = 0, b = 0\<rparr>,
             property = invalid\<rparr> \<noteq> active \<and>
   operator_shl (\<lambda>i. if i = 0 then ''0'' else ''n'') ''''
     \<lparr>coordinates = \<lparr>x = (1::int), y = 2, z = 3\<rparr>, color = \<lparr>r = 0, g = 0, b = 0\<rparr>,
      property = invalid\<rparr> =
     ''Coordinates: x = n'' @ newline @ ''             y = n'' @ newline @
     ''             z = n'' @ newline @ ''R: 0 G: 0 B: 0'' @ newline @
     ''Property: Inactive'' @ newline"
  using operator_shl_not_active
    [of "\<lparr>coordinates = \<lparr>x = (1::int), y = 2, z = 3\<rparr>, color = \<lparr>r = 0, g = 0, b = 0\<rparr>,
          property = invalid\<rparr>" "\<lambda>i. if i = 0 then ''0'' else ''n''" "''''"]
  by (simp add: invalid_def active_def)

section \<open>Rounding\<close>

lemma round_half_even_error: "\<bar>of_int (round_half_even t) - t\<bar> \<le> 1 / 2"
proof -
  define n where "n = \<lfloor>t\<rfloor>"
  define d where "d = t - of_int n"
  have d: "0 \<le> d" "d < 1" "t = of_int n + d"
    unfolding d_def n_def by linarith+
  have "round_half_even t = n \<and> d \<le> 1 / 2 \<or> round_half_even t = n + 1 \<and> 1 / 2 \<le> d"
    unfolding round_half_even_def Let_def n_def [symmetric] d_def [symmetric] by auto
  then show ?thesis
    using d by auto
qed

lemma ilog2_ge1:
  assumes "1 \<le> \<bar>v\<bar>"
  shows "2 powi (ilog2 v) \<le> \<bar>v\<bar>" and "\<bar>v\<bar> < 2 powi (ilog2 v + 1)"
proof -
  define n where "n = \<lfloor>\<bar>v\<bar>\<rfloor>"
  have n: "0 < n" "of_int n \<le> \<bar>v\<bar>" "\<bar>v\<bar> < of_int n + 1"
    using assms unfolding n_def by linarith+
  have k: "1 \<le> bitlen n"
    using n(1) bitlen_eq_zero_iff [of n] bitlen_nonneg [of n] by linarith
  have e: "ilog2 v = bitlen n - 1"
    using assms by (simp add: ilog2_def n_def)
  from bitlen_bounds [OF n(1)]
  have lo: "(2::int) ^ nat (bitlen n - 1) \<le> n" and hi: "n < 2 ^ nat (bitlen n)"
    by simp_all
  have "(2::rat) powi (bitlen n - 1) = of_int (2 ^ nat (bitlen n - 1))"
    using k by (simp add: power_int_def)
  also have "\<dots> \<le> of_int n"
    using lo by (simp only: of_int_le_iff)
  finally show "2 powi (ilog2 v) \<le> \<bar>v\<bar>"
    using n(2) e by simp
  have "n + 1 \<le> 2 ^ nat (bitlen n)"
    using hi by simp
  then have "(of_int (n + 1) :: rat) \<le> of_int (2 ^ nat (bitlen n))"
    by (simp only: of_int_le_iff)
  also have "\<dots> = 2 powi (bitlen n)"
    using k by (simp add: power_int_def)
  finally show "\<bar>v\<bar> < 2 powi (ilog2 v + 1)"
    using n(3) e by simp
qed

lemma ilog2_lt1:
  assumes "v \<noteq> 0" "\<bar>v\<bar> < 1"
  shows "2 powi (ilog2 v) \<le> \<bar>v\<bar>" and "\<bar>v\<bar> < 2 powi (ilog2 v + 1)"
proof -
  define u where "u = 1 / \<bar>v\<bar>"
  define m where "m = \<lceil>u\<rceil> - 1"
  have v: "0 < \<bar>v\<bar>" using assms by simp
  have u: "1 < u" "0 < u" "\<bar>v\<bar> = 1 / u"
    using assms v by (simp_all add: u_def)
  have m: "0 < m" "of_int m < u" "u \<le> of_int m + 1"
    using u(1) unfolding m_def by linarith+
  have k: "1 \<le> bitlen m"
    using m(1) bitlen_eq_zero_iff [of m] bitlen_nonneg [of m] by linarith
  have e: "ilog2 v = - bitlen m"
    using assms by (simp add: ilog2_def m_def u_def)
  from bitlen_bounds [OF m(1)]
  have lo: "(2::int) ^ nat (bitlen m - 1) \<le> m" and hi: "m < 2 ^ nat (bitlen m)"
    by simp_all
  have "m + 1 \<le> 2 ^ nat (bitlen m)"
    using hi by simp
  then have "(of_int (m + 1) :: rat) \<le> of_int (2 ^ nat (bitlen m))"
    by (simp only: of_int_le_iff)
  also have "\<dots> = 2 powi (bitlen m)"
    using k by (simp add: power_int_def)
  finally have "u \<le> 2 powi (bitlen m)"
    using m(3) by simp
  then have "1 / (2 powi (bitlen m)) \<le> 1 / u"
    using u(2) by (simp add: frac_le)
  then show "2 powi (ilog2 v) \<le> \<bar>v\<bar>"
    using e u(3) by (simp add: power_int_minus_divide)
  have "(2::rat) powi (bitlen m - 1) = of_int (2 ^ nat (bitlen m - 1))"
    using k by (simp add: power_int_def)
  also have "\<dots> \<le> of_int m"
    using lo by (simp only: of_int_le_iff)
  finally have "2 powi (bitlen m - 1) < u"
    using m(2) by simp
  then have "1 / u < 1 / (2 powi (bitlen m - 1))"
    by (simp add: frac_less2)
  also have "\<dots> = 2 powi (- (bitlen m - 1))"
    by (simp only: power_int_minus_divide)
  finally show "\<bar>v\<bar> < 2 powi (ilog2 v + 1)"
    using e u(3) by simp
qed

lemma ilog2_bounds:
  assumes "v \<noteq> 0"
  shows "2 powi (ilog2 v) \<le> \<bar>v\<bar>" and "\<bar>v\<bar> < 2 powi (ilog2 v + 1)"
  using assms ilog2_ge1 [of v] ilog2_lt1 [of v] by (cases "1 \<le> \<bar>v\<bar>"; simp)+


text \<open>The overflow test of \<open>fround\<close> compares magnitudes.\<close>

lemma ilog2_le_iff:
  assumes "w \<noteq> 0"
  shows "ilog2 w \<le> n \<longleftrightarrow> \<bar>w\<bar> < 2 powi (n + 1)"
proof
  assume "ilog2 w \<le> n"
  then have "(2::rat) powi (ilog2 w + 1) \<le> 2 powi (n + 1)"
    by (intro power_int_increasing) simp_all
  then show "\<bar>w\<bar> < 2 powi (n + 1)"
    using ilog2_bounds(2) [OF assms] by simp
next
  assume "\<bar>w\<bar> < 2 powi (n + 1)"
  then have *: "(2::rat) powi (ilog2 w) < 2 powi (n + 1)"
    using ilog2_bounds(1) [OF assms] by simp
  show "ilog2 w \<le> n"
  proof (rule ccontr)
    assume "\<not> ilog2 w \<le> n"
    then have "(2::rat) powi (n + 1) \<le> 2 powi (ilog2 w)"
      by (intro power_int_increasing) simp_all
    then show False
      using * by simp
  qed
qed

text \<open>
  A value below 2 in magnitude rounds to a finite value, at most half a unit in the last
  place of the binade \<open>[1, 2)\<close> away.
\<close>

lemma fround_error:
  assumes "\<bar>v\<bar> < 2" and "emin f \<le> 0" and "1 \<le> emax f"
  shows "\<exists>w. fround f v = Finite w \<and> \<bar>w - v\<bar> \<le> 2 powi (- int (precision f))"
proof (cases "v = 0")
  case True
  then show ?thesis by (simp add: fround_def)
next
  case False
  define e where "e = max (ilog2 v) (emin f)"
  define q :: rat where "q = 2 powi (e - int (precision f) + 1)"
  define w where "w = of_int (round_half_even (v / q)) * q"
  have "(2::rat) powi (ilog2 v) < 2 powi 1"
    using ilog2_bounds(1) [OF False] assms(1) by simp
  then have "ilog2 v < 1"
    by (rule power_int_le_imp_less_exp [rotated]) simp_all
  then have e: "e \<le> 0"
    using assms(2) by (simp add: e_def)
  have q: "0 < q"
    by (simp add: q_def)
  have "q \<le> 2 powi (1 - int (precision f))"
    unfolding q_def using e by (intro power_int_increasing) simp_all
  also have "\<dots> = 2 * 2 powi (- int (precision f))"
    by (simp add: power_int_diff power_int_minus_divide)
  finally have q2: "q / 2 \<le> 2 powi (- int (precision f))"
    by simp
  have "(2::rat) powi (- int (precision f)) \<le> 2 powi 0"
    by (intro power_int_increasing) simp_all
  then have q1: "q / 2 \<le> 1"
    using q2 by simp
  have "w - v = (of_int (round_half_even (v / q)) - v / q) * q"
    using q by (simp add: w_def field_simps)
  then have "\<bar>w - v\<bar> = \<bar>of_int (round_half_even (v / q)) - v / q\<bar> * q"
    using q by (simp add: abs_mult)
  also have "\<dots> \<le> 1 / 2 * q"
    using round_half_even_error [of "v / q"] q by (intro mult_right_mono) simp_all
  finally have err: "\<bar>w - v\<bar> \<le> q / 2"
    by simp
  have w4: "\<bar>w\<bar> < 4"
    using err q1 assms(1) by linarith
  have "ilog2 w \<le> emax f" if "w \<noteq> 0"
  proof -
    have "(2::rat) powi (ilog2 w) < 2 powi 2"
      using ilog2_bounds(1) [OF that] w4 by simp
    then have "ilog2 w < 2"
      by (rule power_int_le_imp_less_exp [rotated]) simp_all
    then show ?thesis
      using assms(3) by simp
  qed
  then have "fround f v = Finite w"
    using False unfolding fround_def Let_def e_def [symmetric] q_def [symmetric]
      w_def [symmetric] by auto
  then show ?thesis
    using err q2 by auto
qed


lemma round_half_even_of_int: "round_half_even (of_int k) = k"
  by (simp add: round_half_even_def)

lemma round_half_even_le:
  assumes "t \<le> of_int n"
  shows "round_half_even t \<le> n"
proof -
  have fl: "\<lfloor>t\<rfloor> \<le> n"
    using assms by (simp add: floor_le_iff)
  show ?thesis
  proof (cases "t = of_int n")
    case True
    then show ?thesis by (simp add: round_half_even_of_int)
  next
    case False
    then have "t < of_int n" using assms by simp
    then have "\<lfloor>t\<rfloor> < n" by (simp add: floor_less_iff)
    then have "\<lfloor>t\<rfloor> + 1 \<le> n" by simp
    then show ?thesis
      using fl unfolding round_half_even_def Let_def by auto
  qed
qed

lemma round_half_even_ge:
  assumes "of_int n \<le> t"
  shows "n \<le> round_half_even t"
proof -
  have "n \<le> \<lfloor>t\<rfloor>"
    using assms by (simp add: le_floor_iff)
  then show ?thesis
    unfolding round_half_even_def Let_def by auto
qed

text \<open>The rounded value is a value of the format: rounding it again changes nothing.\<close>

lemma fround_idempotent:
  assumes "fround f v = Finite w" "0 < precision f"
  shows "fround f w = Finite w"
proof (cases "w = 0")
  case True
  then show ?thesis by (simp add: fround_def)
next
  case w0: False
  then have v0: "v \<noteq> 0"
    using assms(1) by (auto simp: fround_def)
  define p where "p = int (precision f)"
  define e where "e = max (ilog2 v) (emin f)"
  define q :: rat where "q = 2 powi (e - p + 1)"
  define m where "m = round_half_even (v / q)"
  have q: "0 < q" by (simp add: q_def)
  have w: "w = of_int m * q" and fin: "ilog2 w \<le> emax f"
    using assms(1) v0 w0 unfolding fround_def Let_def e_def [symmetric] p_def [symmetric]
      q_def [symmetric] m_def [symmetric]
    by (auto split: if_splits)
  have p1: "1 \<le> p" using assms(2) by (simp add: p_def)
  have pq: "2 powi p * q = 2 powi (e + 1)"
    by (simp add: q_def flip: power_int_add)
  have "\<bar>v\<bar> < 2 powi (ilog2 v + 1)"
    by (rule ilog2_bounds(2) [OF v0])
  also have "\<dots> \<le> 2 powi (e + 1)"
    by (intro power_int_increasing) (simp_all add: e_def)
  also have "\<dots> = 2 powi p * q"
    by (simp only: pq)
  finally have "\<bar>v / q\<bar> < 2 powi p"
    using q by (simp add: abs_divide pos_divide_less_eq)
  moreover have pp: "(2::rat) powi p = of_int (2 ^ nat p)"
    using p1 by (simp add: power_int_def)
  ultimately have "\<bar>v / q\<bar> < of_int (2 ^ nat p)"
    by (simp only:)
  then have b: "v / q \<le> of_int (2 ^ nat p)" "of_int (- (2 ^ nat p)) \<le> v / q"
    unfolding of_int_minus by linarith+
  have m2: "\<bar>m\<bar> \<le> 2 ^ nat p"
    using round_half_even_le [OF b(1)] round_half_even_ge [OF b(2)]
    by (simp add: m_def abs_le_iff)
  define e' where "e' = max (ilog2 w) (emin f)"
  define q' :: rat where "q' = 2 powi (e' - p + 1)"
  have q': "0 < q'" by (simp add: q'_def)
  have "\<exists>k. w / q' = of_int k"
  proof (cases "\<bar>m\<bar> = 2 ^ nat p")
    case True
    then have "(of_int \<bar>m\<bar> :: rat) = of_int (2 ^ nat p)"
      by (simp only:)
    then have "\<bar>of_int m :: rat\<bar> = 2 powi p"
      by (simp add: pp)
    then have "\<bar>w\<bar> = 2 powi p * q"
      using q by (simp add: w abs_mult)
    then have aw: "\<bar>w\<bar> = 2 powi (e + 1)"
      by (simp only: pq)
    have "ilog2 w = e + 1"
    proof -
      have "\<bar>w\<bar> < 2 powi (e + 1 + 1)"
        unfolding aw by (intro power_int_strict_increasing) simp_all
      then have "ilog2 w \<le> e + 1"
        by (simp only: ilog2_le_iff [OF w0])
      moreover have "\<not> ilog2 w \<le> e"
        unfolding ilog2_le_iff [OF w0] aw by simp
      ultimately show ?thesis by simp
    qed
    then have "e' = e + 1"
      by (simp add: e'_def e_def)
    then have "q' = 2 * q"
      by (simp add: q'_def q_def power_int_add)
    then have "w / q' = of_int m / 2"
      using q by (simp add: w)
    moreover have "even m"
    proof -
      have "even (2 ^ nat p :: int)" using p1 by simp
      then have "even \<bar>m\<bar>" by (simp only: True)
      then show ?thesis by simp
    qed
    then obtain k where "m = 2 * k" ..
    ultimately have "w / q' = of_int k"
      by simp
    then show ?thesis ..
  next
    case False
    then have "\<bar>m\<bar> < 2 ^ nat p"
      using m2 by simp
    then have "(of_int \<bar>m\<bar> :: rat) < of_int (2 ^ nat p)"
      by (simp only: of_int_less_iff)
    then have "\<bar>of_int m :: rat\<bar> < 2 powi p"
      using p1 by (simp add: power_int_def)
    then have "\<bar>w\<bar> < 2 powi p * q"
      using q by (simp add: w abs_mult)
    then have "\<bar>w\<bar> < 2 powi (e + 1)"
      by (simp only: pq)
    then have "ilog2 w \<le> e"
      by (simp only: ilog2_le_iff [OF w0])
    then have le: "e' \<le> e"
      by (simp add: e'_def e_def)
    have "q' * 2 powi (e - e') = 2 powi (e' - p + 1 + (e - e'))"
      unfolding q'_def by (rule power_int_add [symmetric]) simp
    also have "e' - p + 1 + (e - e') = e - p + 1"
      by simp
    finally have "q = q' * 2 powi (e - e')"
      by (simp add: q_def)
    also have "(2::rat) powi (e - e') = of_int (2 ^ nat (e - e'))"
      using le by (simp add: power_int_def)
    finally have "w / q' = of_int (m * 2 ^ nat (e - e'))"
      using q' by (simp add: w)
    then show ?thesis ..
  qed
  then obtain k where k: "w / q' = of_int k" ..
  then have "of_int (round_half_even (w / q')) * q' = w"
    using q' by (simp add: round_half_even_of_int field_simps)
  then show ?thesis
    using w0 fin unfolding fround_def Let_def e'_def [symmetric] p_def [symmetric]
      q'_def [symmetric]
    by simp
qed

text \<open>
  Known values of single precision: 0.1f, two ties (to even), the largest finite value,
  the overflow threshold on both sides, the smallest subnormal and two values below it.
\<close>

lemma fround_binary32_values:
  "fround binary32 (1 / 10) = Finite (13421773 / 134217728)"
  "fround binary32 (1 + 1 / 16777216) = Finite 1"
  "fround binary32 (1 + 3 / 16777216) = Finite (1 + 1 / 4194304)"
  "fround binary32 340282346638528859811704183484516925440 =
     Finite 340282346638528859811704183484516925440"
  "fround binary32 340282356779733661637539395458142568447 =
     Finite 340282346638528859811704183484516925440"
  "fround binary32 340282356779733661637539395458142568448 = Infinite False"
  "fround binary32 (- 340282356779733661637539395458142568448) = Infinite True"
  "fround binary32 (1 / 713623846352979940529142984724747568191373312) =
     Finite (1 / 713623846352979940529142984724747568191373312)"
  "fround binary32 (1 / 1427247692705959881058285969449495136382746624) = Finite 0"
  "fround binary32 (3 / 1427247692705959881058285969449495136382746624) =
     Finite (1 / 356811923176489970264571492362373784095686656)"
  by code_simp+

lemma two_powi_values:
  "(2::rat) powi (- 53) = 1 / 9007199254740992"
  "(2::rat) powi (- 24) = 1 / 16777216"
  "(2::rat) powi (- 50) = 1 / 1125899906842624"
  by (simp_all add: power_int_minus_divide)

lemma binary64_fround_error:
  assumes "\<bar>v\<bar> < 2"
  shows "\<exists>w. fround binary64 v = Finite w \<and> \<bar>w - v\<bar> \<le> 1 / 9007199254740992"
  using fround_error [of v binary64] assms by (simp add: binary64_def two_powi_values)

lemma binary32_fround_error:
  assumes "\<bar>v\<bar> < 2"
  shows "\<exists>w. fround binary32 v = Finite w \<and> \<bar>w - v\<bar> \<le> 1 / 16777216"
  using fround_error [of v binary32] assms by (simp add: binary32_def two_powi_values)

section \<open>Intensity\<close>

lemma weight_times_channel:
  fixes k K c e :: rat
  assumes "\<bar>k - K\<bar> \<le> e" "0 \<le> c" "c \<le> 1"
  shows "\<bar>k * c - K * c\<bar> \<le> e"
proof -
  have "\<bar>k * c - K * c\<bar> = \<bar>k - K\<bar> * c"
    using assms(2) by (simp add: abs_mult flip: left_diff_distrib)
  also have "\<dots> \<le> e * 1"
    using assms by (intro mult_mono) simp_all
  finally show ?thesis by simp
qed

text \<open>One weighted channel: the rounding of the literal and that of the product.\<close>

lemma weighted_product_error:
  assumes "\<bar>k - K\<bar> \<le> 1 / 9007199254740992" "0 \<le> K" "K \<le> 1" "0 \<le> c" "c \<le> 1"
  shows "\<exists>p. fp_mul binary64 (Finite k) (Finite c) = Finite p \<and>
             \<bar>p - K * c\<bar> \<le> 2 / 9007199254740992"
proof -
  have a: "\<bar>k * c - K * c\<bar> \<le> 1 / 9007199254740992"
    using assms by (intro weight_times_channel)
  have b: "0 \<le> K * c" "K * c \<le> K"
    using assms by (simp_all add: mult_left_le)
  have "\<bar>k * c\<bar> < 2"
    using a b assms(3) by linarith
  from binary64_fround_error [OF this] obtain p where
    "fround binary64 (k * c) = Finite p" "\<bar>p - k * c\<bar> \<le> 1 / 9007199254740992"
    by blast
  moreover from this a have "\<bar>p - K * c\<bar> \<le> 2 / 9007199254740992"
    by linarith
  ultimately show ?thesis
    by simp
qed

text \<open>
  C1, as the code computes it. For channels in \<open>[0, 1]\<close> the intensity is a finite
  \<^verbatim>\<open>float\<close> within \<open>2 powi (- 24) + 2 powi (- 50)\<close> of the weighted sum
  \<open>0.2126 r + 0.7152 g + 0.0722 b\<close>: the three literals, the three products and the two
  sums are rounded in \<^verbatim>\<open>double\<close>, and the result is rounded to \<^verbatim>\<open>float\<close>.
\<close>

theorem to_intensity_error:
  assumes "0 \<le> cr" "cr \<le> 1" "0 \<le> cg" "cg \<le> 1" "0 \<le> cb" "cb \<le> 1"
  shows "\<exists>w. to_intensity \<lparr>r = Finite cr, g = Finite cg, b = Finite cb\<rparr> = Finite w \<and>
     \<bar>w - (2126 / 10000 * cr + 7152 / 10000 * cg + 722 / 10000 * cb)\<bar>
        \<le> 2 powi (- 24) + 2 powi (- 50)"
proof -
  obtain k1 where k1: "double_literal (2126 / 10000) = Finite k1"
      "\<bar>k1 - 2126 / 10000\<bar> \<le> 1 / 9007199254740992"
    using binary64_fround_error [of "2126 / 10000"] by (auto simp: double_literal_def)
  obtain k2 where k2: "double_literal (7152 / 10000) = Finite k2"
      "\<bar>k2 - 7152 / 10000\<bar> \<le> 1 / 9007199254740992"
    using binary64_fround_error [of "7152 / 10000"] by (auto simp: double_literal_def)
  obtain k3 where k3: "double_literal (722 / 10000) = Finite k3"
      "\<bar>k3 - 722 / 10000\<bar> \<le> 1 / 9007199254740992"
    using binary64_fround_error [of "722 / 10000"] by (auto simp: double_literal_def)
  obtain p1 where p1: "fp_mul binary64 (Finite k1) (Finite cr) = Finite p1"
      "\<bar>p1 - 2126 / 10000 * cr\<bar> \<le> 2 / 9007199254740992"
    using weighted_product_error [OF k1(2) _ _ assms(1,2)] by auto
  obtain p2 where p2: "fp_mul binary64 (Finite k2) (Finite cg) = Finite p2"
      "\<bar>p2 - 7152 / 10000 * cg\<bar> \<le> 2 / 9007199254740992"
    using weighted_product_error [OF k2(2) _ _ assms(3,4)] by auto
  obtain p3 where p3: "fp_mul binary64 (Finite k3) (Finite cb) = Finite p3"
      "\<bar>p3 - 722 / 10000 * cb\<bar> \<le> 2 / 9007199254740992"
    using weighted_product_error [OF k3(2) _ _ assms(5,6)] by auto
  define e1 where "e1 = 2126 / 10000 * cr"
  define e2 where "e2 = 7152 / 10000 * cg"
  define e3 where "e3 = 722 / 10000 * cb"
  have range: "0 \<le> e1" "e1 \<le> 2126 / 10000" "0 \<le> e2" "e2 \<le> 7152 / 10000"
      "0 \<le> e3" "e3 \<le> 722 / 10000"
    using assms by (simp_all add: e1_def e2_def e3_def)
  note q1 = p1(2) [folded e1_def] and q2 = p2(2) [folded e2_def] and q3 = p3(2) [folded e3_def]
  have "\<bar>p1 + p2\<bar> < 2"
    using q1 q2 range by linarith
  from binary64_fround_error [OF this] obtain s1 where
    s1: "fround binary64 (p1 + p2) = Finite s1" "\<bar>s1 - (p1 + p2)\<bar> \<le> 1 / 9007199254740992"
    by blast
  have "\<bar>s1 + p3\<bar> < 2"
    using s1(2) q1 q2 q3 range by linarith
  from binary64_fround_error [OF this] obtain s2 where
    s2: "fround binary64 (s1 + p3) = Finite s2" "\<bar>s2 - (s1 + p3)\<bar> \<le> 1 / 9007199254740992"
    by blast
  have "\<bar>s2\<bar> < 2"
    using s2(2) s1(2) q1 q2 q3 range by linarith
  from binary32_fround_error [OF this] obtain w where
    w: "fround binary32 s2 = Finite w" "\<bar>w - s2\<bar> \<le> 1 / 16777216"
    by blast
  have val: "to_intensity \<lparr>r = Finite cr, g = Finite cg, b = Finite cb\<rparr> = Finite w"
    by (simp only: to_intensity_def color3.simps double_of_float.simps k1(1) k2(1) k3(1)
        p1(1) p2(1) p3(1) fp_add.simps s1(1) s2(1) float_of_double.simps w(1))
  have "\<bar>w - (e1 + e2 + e3)\<bar> \<le> 1 / 16777216 + 1 / 1125899906842624"
    using w(2) s2(2) s1(2) q1 q2 q3 by linarith
  then show ?thesis
    using val by (simp add: two_powi_values e1_def e2_def e3_def)
qed

theorem to_intensity_error_witness:
  "(0::rat) \<le> 1 \<and> (1::rat) \<le> 1 \<and> (0::rat) \<le> 1 / 2 \<and> (1 / 2 :: rat) \<le> 1 \<and>
   (0::rat) \<le> 0 \<and> (0::rat) \<le> 1 \<and>
   (\<exists>w. to_intensity \<lparr>r = Finite 1, g = Finite (1 / 2), b = Finite 0\<rparr> = Finite w \<and>
        \<bar>w - (2126 / 10000 * 1 + 7152 / 10000 * (1 / 2) + 722 / 10000 * 0)\<bar>
          \<le> 2 powi (- 24) + 2 powi (- 50))"
  using to_intensity_error [of 1 "1 / 2" 0] by simp

text \<open>
  The intensity of pure red is the \<^verbatim>\<open>float\<close> nearest to the \<^verbatim>\<open>double\<close> nearest to
  0.2126, which is not 0.2126: the equality with the weighted sum fails there.
\<close>

theorem to_intensity_counterexample:
  "to_intensity \<lparr>r = Finite 1, g = Finite 0, b = Finite 0\<rparr> = Finite (891709 / 4194304) \<and>
   Finite (891709 / 4194304) \<noteq> Finite (2126 / 10000 * 1 + 7152 / 10000 * 0 + 722 / 10000 * 0)"
proof -
  have k1: "double_literal (2126 / 10000) = Finite (1914930561557935 / 9007199254740992)"
    by code_simp
  have k2: "double_literal (7152 / 10000) = Finite (6441948906990757 / 9007199254740992)"
    by code_simp
  have k3: "double_literal (722 / 10000) = Finite (5202558289538397 / 72057594037927936)"
    by code_simp
  have p1: "fp_mul binary64 (Finite (1914930561557935 / 9007199254740992)) (Finite 1) =
      Finite (1914930561557935 / 9007199254740992)"
    by code_simp
  have p2: "fp_mul binary64 (Finite (6441948906990757 / 9007199254740992)) (Finite 0) = Finite 0"
    by (simp add: fround_def)
  have p3: "fp_mul binary64 (Finite (5202558289538397 / 72057594037927936)) (Finite 0) = Finite 0"
    by (simp add: fround_def)
  have s: "fp_add binary64 (Finite (1914930561557935 / 9007199254740992)) (Finite 0) =
      Finite (1914930561557935 / 9007199254740992)"
    by code_simp
  have w: "float_of_double (Finite (1914930561557935 / 9007199254740992)) =
      Finite (891709 / 4194304)"
    by code_simp
  have "to_intensity \<lparr>r = Finite 1, g = Finite 0, b = Finite 0\<rparr> = Finite (891709 / 4194304)"
    by (simp only: to_intensity_def color3.simps double_of_float.simps k1 k2 k3 p1 p2 p3 s w)
  moreover have "Finite (891709 / 4194304) \<noteq>
      Finite (2126 / 10000 * 1 + 7152 / 10000 * 0 + 722 / 10000 * 0)"
    by simp
  ultimately show ?thesis
    by (rule conjI)
qed

section \<open>Division of a colour by a count\<close>

text \<open>
  C9. For every colour \<open>c\<close> and every count \<open>n\<close>, \<open>c / n\<close> is each channel multiplied, in
  single precision, by the single-precision reciprocal \<open>1.0f / (float)n\<close>; this is not the
  channel divided by \<open>n\<close>: for the grey \<open>0.625\<close> and \<open>n = 3\<close> the two roundings give
  \<open>6990507 / 2 ^ 25\<close>, the direct quotient rounds to \<open>13981013 / 2 ^ 26\<close>.
\<close>

theorem color3_divide_reciprocal:
  "color3_divide c n =
     \<lparr>r = fp_mul binary32 (r c) (fp_div binary32 (Finite 1) (float_of_int n)),
      g = fp_mul binary32 (g c) (fp_div binary32 (Finite 1) (float_of_int n)),
      b = fp_mul binary32 (b c) (fp_div binary32 (Finite 1) (float_of_int n))\<rparr> \<and>
   color3_divide \<lparr>r = Finite (5 / 8), g = Finite (5 / 8), b = Finite (5 / 8)\<rparr> 3 =
     \<lparr>r = Finite (6990507 / 33554432), g = Finite (6990507 / 33554432),
      b = Finite (6990507 / 33554432)\<rparr> \<and>
   color3_direct_quotient \<lparr>r = Finite (5 / 8), g = Finite (5 / 8), b = Finite (5 / 8)\<rparr> 3 =
     \<lparr>r = Finite (13981013 / 67108864), g = Finite (13981013 / 67108864),
      b = Finite (13981013 / 67108864)\<rparr> \<and>
   color3_divide \<lparr>r = Finite (5 / 8), g = Finite (5 / 8), b = Finite (5 / 8)\<rparr> 3 \<noteq>
     color3_direct_quotient \<lparr>r = Finite (5 / 8), g = Finite (5 / 8), b = Finite (5 / 8)\<rparr> 3"
proof -
  have general: "color3_divide c n =
     \<lparr>r = fp_mul binary32 (r c) (fp_div binary32 (Finite 1) (float_of_int n)),
      g = fp_mul binary32 (g c) (fp_div binary32 (Finite 1) (float_of_int n)),
      b = fp_mul binary32 (b c) (fp_div binary32 (Finite 1) (float_of_int n))\<rparr>"
    by (simp add: color3_divide_def Let_def)
  have third: "fp_div binary32 (Finite 1) (float_of_int 3) = Finite (11184811 / 33554432)"
    by code_simp
  have product: "fp_mul binary32 (Finite (5 / 8)) (Finite (11184811 / 33554432)) =
      Finite (6990507 / 33554432)"
    by code_simp
  have quotient: "fp_div binary32 (Finite (5 / 8)) (float_of_int 3) =
      Finite (13981013 / 67108864)"
    by code_simp
  have twice: "color3_divide \<lparr>r = Finite (5 / 8), g = Finite (5 / 8), b = Finite (5 / 8)\<rparr> 3 =
     \<lparr>r = Finite (6990507 / 33554432), g = Finite (6990507 / 33554432),
      b = Finite (6990507 / 33554432)\<rparr>"
    by (simp only: color3_divide_def Let_def color3.simps third product)
  have once:
    "color3_direct_quotient \<lparr>r = Finite (5 / 8), g = Finite (5 / 8), b = Finite (5 / 8)\<rparr> 3 =
     \<lparr>r = Finite (13981013 / 67108864), g = Finite (13981013 / 67108864),
      b = Finite (13981013 / 67108864)\<rparr>"
    by (simp only: color3_direct_quotient_def color3.simps quotient)
  have differ: "Finite (6990507 / 33554432) \<noteq> Finite (13981013 / 67108864)"
    by simp
  show ?thesis
    using general twice once differ by simp
qed

section \<open>Exit codes\<close>










section \<open>Grouping by cell\<close>









section \<open>The grid index and its invariant\<close>



lemma build_fields:
  assumes "build pc h = Inr idx"
  shows "0 < h" "cell_size idx = h" "points idx = pc" "origin idx = bbox_min pc"
  using assms by (auto simp: build_def split: if_splits)













section \<open>Counting neighbours\<close>







section \<open>Voxel accumulators\<close>




text \<open>The downsampling of the two clouds of scenario S1, evaluated.\<close>

lemma scenario_S1_down_sampled:
  "snd (voxel_grid_down_sample (1 / 50) scenario_S1) =
     map (\<lambda>v. \<lparr>coordinates = \<lparr>x = v, y = 0, z = 0\<rparr>,
               color = \<lparr>r = Finite 0, g = Finite 0, b = Finite 0\<rparr>, property = active\<rparr>)
       [5 / 1000, 25 / 1000, 45 / 1000, 65 / 1000, 85 / 1000]"
  by code_simp





section \<open>Normals\<close>
























section \<open>The claims on the point cloud operations\<close>



text \<open>
  C6. For every index built with cell size \<open>h\<close> and every radius above \<open>h\<close>, the radius search
  fails with \<open>InvalidArgument\<close>; the error carries no list of neighbours.
\<close>

theorem radius_search_above_cell_size:
  assumes "build pc h = Inr idx" "h < rad"
  shows "radius_search idx q rad = Inl InvalidArgument"
  using assms build_fields(2) [OF assms(1)] by (simp add: radius_search_def)

theorem radius_search_above_cell_size_witness:
  "build scenario_S1 (1 / 50) =
     Inr \<lparr>origin = bbox_min scenario_S1, cell_size = 1 / 50, points = scenario_S1,
          cells = hash_points (bbox_min scenario_S1) (1 / 50) scenario_S1\<rparr> \<and>
   (1 / 50 :: rat) < 1 / 20 \<and>
   radius_search
     \<lparr>origin = bbox_min scenario_S1, cell_size = 1 / 50, points = scenario_S1,
      cells = hash_points (bbox_min scenario_S1) (1 / 50) scenario_S1\<rparr>
     \<lparr>x = 1 / 20, y = 0, z = 0\<rparr> (1 / 20) = Inl InvalidArgument"
proof -
  have b: "build scenario_S1 (1 / 50) =
     Inr \<lparr>origin = bbox_min scenario_S1, cell_size = 1 / 50, points = scenario_S1,
          cells = hash_points (bbox_min scenario_S1) (1 / 50) scenario_S1\<rparr>"
    by (simp add: build_def)
  have lt: "(1 / 50 :: rat) < 1 / 20"
    by simp
  from radius_search_above_cell_size [OF b lt] b lt show ?thesis
    by blast
qed







end
